theory Spec2Isabelle
  imports Main "HOL-Library.Word"
begin

unbundle bit_operations_syntax

section \<open>Strings, byte buffers and formatting\<close>

text \<open>
  An \<open>ov::String\<close> is modelled by the text it holds, the characters \<open>CStr()\<close> points
  at up to the terminator: a HOL \<open>string\<close>. An \<open>ov::Data\<close> is a buffer of bytes.
  \<open>String::ToData(false)\<close> gives the bytes of the text without the terminator.
\<close>

type_synonym Data = "8 word list"

definition ToData :: "string \<Rightarrow> Data" where
  "ToData s = map of_char s"

text \<open>
  Modelled from the spec: \<open>ov::String::FormatString\<close> is declared in ovlibrary, which is
  not among the sources. The spec gives its results as templates with the arguments
  substituted (\<open>"{username}:{realm}:{password}"\<close>); the source passes printf formats whose
  only directive is \<open>%s\<close>. Each \<open>%s\<close> is replaced by the next argument, every other
  character is copied. A directive with no argument left (which the source never writes)
  is copied as it stands.
\<close>

fun FormatString :: "string \<Rightarrow> string list \<Rightarrow> string" where
  "FormatString [] args = []"
| "FormatString [c] args = [c]"
| "FormatString (c # d # fmt) args =
     (if c = CHR ''%'' \<and> d = CHR ''s''
      then (case args of
              [] \<Rightarrow> c # d # FormatString fmt []
            | a # as \<Rightarrow> a @ FormatString fmt as)
      else c # FormatString (d # fmt) args)"

text \<open>
  Modelled from the spec: \<open>ov::Data::ToHexString\<close> and \<open>ov::String::LowerCaseString\<close>
  are ovlibrary functions, not among the sources. The spec's contract is "digest bytes to
  hex string"; the source lowers the case afterwards, so the hex digits are taken as the
  upper-case ones, two per byte, high nibble first. \<open>LowerCaseString\<close> maps the ASCII
  letters A to Z to a to z and leaves every other character.
\<close>

definition hex_digit_upper :: "nat \<Rightarrow> char" where
  "hex_digit_upper n = ''0123456789ABCDEF'' ! n"

definition ToHexString :: "Data \<Rightarrow> string" where
  "ToHexString d =
     concat (map (\<lambda>b. [hex_digit_upper (unat b div 16), hex_digit_upper (unat b mod 16)]) d)"

definition tolower :: "char \<Rightarrow> char" where
  "tolower c =
     (case map_of (zip ''ABCDEFGHIJKLMNOPQRSTUVWXYZ'' ''abcdefghijklmnopqrstuvwxyz'') c of
        None \<Rightarrow> c
      | Some l \<Rightarrow> l)"

definition LowerCaseString :: "string \<Rightarrow> string" where
  "LowerCaseString s = map tolower s"

section \<open>Base64\<close>

text \<open>
  Modelled from the spec: \<open>ov::Base64::Encode\<close> belongs to ovcrypto, which is not among
  the sources. The spec's contract is "bytes to base64 text", and that decoding gives the
  bytes back. This is the base64 of RFC 4648: three bytes make four characters of the
  standard alphabet of six bits each, a last group of one or two bytes is padded with
  \<open>=\<close>.
  \<open>Base64_Decode\<close> is the decoder the spec's round trip speaks of; it fails (\<open>None\<close>)
  on a character outside the alphabet and on a length that is not a multiple of four.
\<close>

definition base64_alphabet :: string where
  "base64_alphabet = ''ABCDEFGHIJKLMNOPQRSTUVWXYZabcdefghijklmnopqrstuvwxyz0123456789+/''"

definition base64_char :: "nat \<Rightarrow> char" where
  "base64_char n = base64_alphabet ! n"

definition base64_value :: "char \<Rightarrow> nat option" where
  "base64_value c = map_of (zip base64_alphabet [0..<64]) c"

fun Base64_Encode :: "Data \<Rightarrow> string" where
  "Base64_Encode [] = []"
| "Base64_Encode [a] =
     [base64_char (unat a div 4), base64_char (unat a mod 4 * 16), CHR ''='', CHR ''='']"
| "Base64_Encode [a, b] =
     [base64_char (unat a div 4), base64_char (unat a mod 4 * 16 + unat b div 16),
      base64_char (unat b mod 16 * 4), CHR ''='']"
| "Base64_Encode (a # b # c # rest) =
     base64_char (unat a div 4) # base64_char (unat a mod 4 * 16 + unat b div 16) #
     base64_char (unat b mod 16 * 4 + unat c div 64) # base64_char (unat c mod 64) #
     Base64_Encode rest"

fun Base64_Decode :: "string \<Rightarrow> Data option" where
  "Base64_Decode [] = Some []"
| "Base64_Decode (c0 # c1 # c2 # c3 # rest) =
     (case base64_value c0 of
        None \<Rightarrow> None
      | Some s0 \<Rightarrow>
         (case base64_value c1 of
            None \<Rightarrow> None
          | Some s1 \<Rightarrow>
             (if c2 = CHR ''='' \<and> c3 = CHR ''='' \<and> rest = []
              then Some [of_nat (s0 * 4 + s1 div 16)]
              else
                (case base64_value c2 of
                   None \<Rightarrow> None
                 | Some s2 \<Rightarrow>
                    (if c3 = CHR ''='' \<and> rest = []
                     then Some [of_nat (s0 * 4 + s1 div 16),
                                of_nat (s1 mod 16 * 16 + s2 div 4)]
                     else
                       (case base64_value c3 of
                          None \<Rightarrow> None
                        | Some s3 \<Rightarrow>
                           (case Base64_Decode rest of
                              None \<Rightarrow> None
                            | Some bs \<Rightarrow>
                               Some (of_nat (s0 * 4 + s1 div 16) #
                                     of_nat (s1 mod 16 * 16 + s2 div 4) #
                                     of_nat (s2 mod 4 * 64 + s3) # bs))))))))"
| "Base64_Decode _ = None"

section \<open>The message digest\<close>

text \<open>
  Modelled from the spec: \<open>ov::MessageDigest::ComputeDigest\<close> belongs to ovcrypto, which
  is not among the sources. The spec fixes "a single fixed algorithm (a 128-bit
  cryptographic hash)" whose choice in the source must be kept; the source selects
  \<open>ov::CryptoAlgorithm::Md5\<close>. This is MD5 as RFC 1321 publishes it: the message is
  padded with a one bit, zeros and its length in bits, and processed in blocks of 64
  bytes by 64 steps each. The theorems of the claims hold whatever the digest computes;
  the test vectors of RFC 1321 are checked further down.
\<close>

datatype CryptoAlgorithm = Md5

type_synonym md5_state = "32 word \<times> 32 word \<times> 32 word \<times> 32 word"

definition md5_K :: "32 word list" where
  "md5_K =
    [0xd76aa478, 0xe8c7b756, 0x242070db, 0xc1bdceee,
     0xf57c0faf, 0x4787c62a, 0xa8304613, 0xfd469501,
     0x698098d8, 0x8b44f7af, 0xffff5bb1, 0x895cd7be,
     0x6b901122, 0xfd987193, 0xa679438e, 0x49b40821,
     0xf61e2562, 0xc040b340, 0x265e5a51, 0xe9b6c7aa,
     0xd62f105d, 0x02441453, 0xd8a1e681, 0xe7d3fbc8,
     0x21e1cde6, 0xc33707d6, 0xf4d50d87, 0x455a14ed,
     0xa9e3e905, 0xfcefa3f8, 0x676f02d9, 0x8d2a4c8a,
     0xfffa3942, 0x8771f681, 0x6d9d6122, 0xfde5380c,
     0xa4beea44, 0x4bdecfa9, 0xf6bb4b60, 0xbebfbc70,
     0x289b7ec6, 0xeaa127fa, 0xd4ef3085, 0x04881d05,
     0xd9d4d039, 0xe6db99e5, 0x1fa27cf8, 0xc4ac5665,
     0xf4292244, 0x432aff97, 0xab9423a7, 0xfc93a039,
     0x655b59c3, 0x8f0ccc92, 0xffeff47d, 0x85845dd1,
     0x6fa87e4f, 0xfe2ce6e0, 0xa3014314, 0x4e0811a1,
     0xf7537e82, 0xbd3af235, 0x2ad7d2bb, 0xeb86d391]"

definition md5_shift :: "nat list" where
  "md5_shift =
    [7, 12, 17, 22, 7, 12, 17, 22, 7, 12, 17, 22, 7, 12, 17, 22,
     5, 9, 14, 20, 5, 9, 14, 20, 5, 9, 14, 20, 5, 9, 14, 20,
     4, 11, 16, 23, 4, 11, 16, 23, 4, 11, 16, 23, 4, 11, 16, 23,
     6, 10, 15, 21, 6, 10, 15, 21, 6, 10, 15, 21, 6, 10, 15, 21]"

fun little_endian :: "nat \<Rightarrow> nat \<Rightarrow> Data" where
  "little_endian 0 n = []"
| "little_endian (Suc k) n = of_nat (n mod 256) # little_endian k (n div 256)"

definition md5_length_bytes :: "nat \<Rightarrow> Data" where
  "md5_length_bytes bits = little_endian 8 bits"

definition md5_pad :: "Data \<Rightarrow> Data" where
  "md5_pad d =
     d @ [0x80] @ replicate ((119 - length d mod 64) mod 64) 0 @
     md5_length_bytes (8 * length d)"

fun md5_words :: "Data \<Rightarrow> 32 word list" where
  "md5_words (b0 # b1 # b2 # b3 # rest) =
     (ucast b0 OR push_bit 8 (ucast b1) OR push_bit 16 (ucast b2) OR push_bit 24 (ucast b3))
     # md5_words rest"
| "md5_words _ = []"

definition md5_step :: "32 word list \<Rightarrow> nat \<Rightarrow> md5_state \<Rightarrow> md5_state" where
  "md5_step M i st =
     (case st of (A, B, C, D) \<Rightarrow>
       (let (F, g) =
              (if i < 16 then ((B AND C) OR (NOT B AND D), i)
               else if i < 32 then ((D AND B) OR (NOT D AND C), (5 * i + 1) mod 16)
               else if i < 48 then (B XOR C XOR D, (3 * i + 5) mod 16)
               else (C XOR (B OR NOT D), (7 * i) mod 16));
            F' = F + A + md5_K ! i + M ! g
        in (D, B + word_rotl (md5_shift ! i) F', B, C)))"

definition md5_block :: "Data \<Rightarrow> md5_state \<Rightarrow> md5_state" where
  "md5_block block st =
     (case st of (a0, b0, c0, d0) \<Rightarrow>
       (case fold (md5_step (md5_words block)) [0..<64] st of (A, B, C, D) \<Rightarrow>
         (a0 + A, b0 + B, c0 + C, d0 + D)))"

definition md5_word_bytes :: "32 word \<Rightarrow> Data" where
  "md5_word_bytes w = map (\<lambda>i. ucast (drop_bit (8 * i) w)) [0..<4]"

definition md5 :: "Data \<Rightarrow> Data" where
  "md5 d =
     (let p = md5_pad d;
          st = fold (\<lambda>k. md5_block (take 64 (drop (64 * k) p))) [0..<length p div 64]
                 (0x67452301, 0xefcdab89, 0x98badcfe, 0x10325476)
      in case st of (a, b, c, d') \<Rightarrow>
           md5_word_bytes a @ md5_word_bytes b @ md5_word_bytes c @ md5_word_bytes d')"

fun ComputeDigest :: "CryptoAlgorithm \<Rightarrow> Data \<Rightarrow> Data" where
  "ComputeDigest Md5 d = md5 d"

section \<open>The header field and the Authorization credential\<close>

text \<open>
  \<open>RtspHeaderWWWAuthenticateField::Scheme\<close>, as the source names its values.
\<close>

datatype Scheme = Unknown | Basic | Digest

text \<open>
  Modelled from the spec: \<open>RtspHeaderWWWAuthenticateField::GetSchemeString\<close> is declared
  in rtsp_header_authenticate.h, which is not among the sources. The spec (4.2) calls its
  results "the literal tokens that name the Basic and Digest schemes", used verbatim as
  the prefix of the rendered value. The theorems of the claims speak of
  \<open>GetSchemeString Basic\<close> and \<open>GetSchemeString Digest\<close> and never of the letters.
\<close>

fun GetSchemeString :: "Scheme \<Rightarrow> string" where
  "GetSchemeString Basic = ''Basic''"
| "GetSchemeString Digest = ''Digest''"
| "GetSchemeString Unknown = ''Unknown''"

text \<open>
  Modelled from the spec: the base class \<open>RtspHeaderField\<close> is declared in
  rtsp_header_field.h, which is not among the sources. The spec (4.1) asks one thing of
  it: \<open>SetContent(fieldType, value)\<close> stores the rendered string of this field, keyed by
  its type tag. The base part of the object is the tag and the stored value; its
  constructor stores the tag and leaves the value empty. Of the tags only
  \<open>Authorization\<close> occurs in the source.
\<close>

datatype RtspHeaderFieldType = Authorization

record RtspHeaderField =
  field_type :: RtspHeaderFieldType
  field_value :: string

definition SetContent ::
  "RtspHeaderFieldType \<Rightarrow> string \<Rightarrow> 'a RtspHeaderField_scheme \<Rightarrow> 'a RtspHeaderField_scheme" where
  "SetContent type val this = this\<lparr>field_type := type, field_value := val\<rparr>"

text \<open>
  The class \<open>RtspHeaderAuthorizationField\<close>: the base part and the private members
  \<open>_scheme\<close>, \<open>_username\<close>, \<open>_password\<close>, \<open>_method\<close>, \<open>_realm\<close>, \<open>_nonce\<close>,
  \<open>_uri\<close>, \<open>_response\<close> (a name cannot start with an underscore here, hence \<open>m_\<close>).
  A member function takes the object and returns it updated.
\<close>

record RtspHeaderAuthorizationField = RtspHeaderField +
  m_scheme :: Scheme
  m_username :: string
  m_password :: string
  m_method :: string
  m_realm :: string
  m_nonce :: string
  m_uri :: string
  m_response :: string

text \<open>
  The constructor: the base is built with the tag \<open>Authorization\<close>, the scheme is set to
  \<open>Unknown\<close>, and the strings are default-constructed, that is empty.
\<close>

definition New_RtspHeaderAuthorizationField :: RtspHeaderAuthorizationField where
  "New_RtspHeaderAuthorizationField =
     \<lparr>field_type = Authorization, field_value = [],
      m_scheme = Unknown, m_username = [], m_password = [], m_method = [],
      m_realm = [], m_nonce = [], m_uri = [], m_response = []\<rparr>"

definition SetBasicAuth ::
  "string \<Rightarrow> string \<Rightarrow> RtspHeaderAuthorizationField \<Rightarrow> RtspHeaderAuthorizationField" where
  "SetBasicAuth username password this =
     (let this1 = this\<lparr>m_scheme := Basic, m_username := username, m_password := password\<rparr>;
          this2 = this1\<lparr>m_response :=
                    Base64_Encode (ToData (FormatString ''%s:%s'' [m_username this1, m_password this1]))\<rparr>;
          val = FormatString ''%s %s'' [GetSchemeString (m_scheme this2), m_response this2]
      in SetContent Authorization val this2)"

definition SetDigestAuth ::
  "string \<Rightarrow> string \<Rightarrow> string \<Rightarrow> string \<Rightarrow> string \<Rightarrow> string \<Rightarrow>
   RtspHeaderAuthorizationField \<Rightarrow> RtspHeaderAuthorizationField" where
  \<open>SetDigestAuth username password method realm uri nonce this =
     (let this1 = this\<lparr>m_scheme := Digest, m_username := username, m_password := password,
                        m_method := method, m_realm := realm, m_uri := uri, m_nonce := nonce\<rparr>;
          ha1 = FormatString ''%s:%s:%s'' [m_username this1, m_realm this1, m_password this1];
          ha1_md5 = ComputeDigest Md5 (ToData ha1);
          ha2 = FormatString ''%s:%s'' [m_method this1, m_uri this1];
          ha2_md5 = ComputeDigest Md5 (ToData ha2);
          response = FormatString ''%s:%s:%s''
                       [LowerCaseString (ToHexString ha1_md5), m_nonce this1,
                        LowerCaseString (ToHexString ha2_md5)];
          this2 = this1\<lparr>m_response :=
                    LowerCaseString (ToHexString (ComputeDigest Md5 (ToData response)))\<rparr>;
          val = FormatString
                  ''%s username="%s", realm="%s", nonce="%s", uri="%s", response="%s"''
                  [GetSchemeString (m_scheme this2), m_username this2, m_realm this2,
                   m_nonce this2, m_uri this2, m_response this2]
      in SetContent Authorization val this2)\<close>

definition UpdateDigestAuth ::
  "string \<Rightarrow> string \<Rightarrow> RtspHeaderAuthorizationField \<Rightarrow> RtspHeaderAuthorizationField" where
  "UpdateDigestAuth method uri this =
     SetDigestAuth (m_username this) (m_password this) method (m_realm this) uri (m_nonce this) this"

text \<open>
  The two factories make a fresh object and call the setter; the Digest factory takes
  \<open>uri\<close> before \<open>realm\<close> and passes them on in the setter's order.
\<close>

definition CreateRtspBasicAuthorizationField ::
  "string \<Rightarrow> string \<Rightarrow> RtspHeaderAuthorizationField" where
  "CreateRtspBasicAuthorizationField username password =
     SetBasicAuth username password New_RtspHeaderAuthorizationField"

definition CreateRtspDigestAuthorizationField ::
  "string \<Rightarrow> string \<Rightarrow> string \<Rightarrow> string \<Rightarrow> string \<Rightarrow> string \<Rightarrow>
   RtspHeaderAuthorizationField" where
  "CreateRtspDigestAuthorizationField username password method uri realm nonce =
     SetDigestAuth username password method realm uri nonce New_RtspHeaderAuthorizationField"

definition GetScheme :: "RtspHeaderAuthorizationField \<Rightarrow> Scheme" where
  "GetScheme this = m_scheme this"

definition GetUsername :: "RtspHeaderAuthorizationField \<Rightarrow> string" where
  "GetUsername this = m_username this"

definition GetPassword :: "RtspHeaderAuthorizationField \<Rightarrow> string" where
  "GetPassword this = m_password this"

definition GetMethod :: "RtspHeaderAuthorizationField \<Rightarrow> string" where
  "GetMethod this = m_method this"

definition GetRealm :: "RtspHeaderAuthorizationField \<Rightarrow> string" where
  "GetRealm this = m_realm this"

definition GetUri :: "RtspHeaderAuthorizationField \<Rightarrow> string" where
  "GetUri this = m_uri this"

definition GetNonce :: "RtspHeaderAuthorizationField \<Rightarrow> string" where
  "GetNonce this = m_nonce this"

definition GetResponse :: "RtspHeaderAuthorizationField \<Rightarrow> string" where
  "GetResponse this = m_response this"

text \<open>
  \<open>Parse\<close> returns \<open>false\<close> and touches nothing ("Not implemented for now"); the
  result is the returned flag and the object after the call.
\<close>

definition Parse ::
  "string \<Rightarrow> RtspHeaderAuthorizationField \<Rightarrow> bool \<times> RtspHeaderAuthorizationField" where
  "Parse message this = (False, this)"

section \<open>What the spec says, in its own words\<close>

text \<open>
  The spec's "lowercase hex of the digest": two digits per byte out of
  \<open>0123456789abcdef\<close>, high nibble first.
\<close>

definition hex_digit_lower :: "nat \<Rightarrow> char" where
  "hex_digit_lower n = ''0123456789abcdef'' ! n"

definition lowercase_hex :: "Data \<Rightarrow> string" where
  "lowercase_hex d =
     concat (map (\<lambda>b. [hex_digit_lower (unat b div 16), hex_digit_lower (unat b mod 16)]) d)"

definition is_lowercase_hex_digit :: "char \<Rightarrow> bool" where
  "is_lowercase_hex_digit c = List.member ''0123456789abcdef'' c"

text \<open>
  The three steps of the Digest derivation (spec 4.3), with \<open>:\<close> between the parts
  and nothing else.
\<close>

definition HA1_spec :: "string \<Rightarrow> string \<Rightarrow> string \<Rightarrow> string" where
  "HA1_spec username realm password =
     lowercase_hex (ComputeDigest Md5 (ToData (username @ '':'' @ realm @ '':'' @ password)))"

definition HA2_spec :: "string \<Rightarrow> string \<Rightarrow> string" where
  "HA2_spec method uri = lowercase_hex (ComputeDigest Md5 (ToData (method @ '':'' @ uri)))"

definition digest_response_spec ::
  "string \<Rightarrow> string \<Rightarrow> string \<Rightarrow> string \<Rightarrow> string \<Rightarrow> string \<Rightarrow> string" where
  "digest_response_spec username password method realm uri nonce =
     lowercase_hex (ComputeDigest Md5 (ToData
       (HA1_spec username realm password @ '':'' @ nonce @ '':'' @ HA2_spec method uri)))"

text \<open>A value between double quotes, and the two rendered values of spec 4.3.\<close>

definition quoted :: "string \<Rightarrow> string" where
  "quoted s = CHR 0x22 # s @ [CHR 0x22]"

definition digest_rendered_spec ::
  "string \<Rightarrow> string \<Rightarrow> string \<Rightarrow> string \<Rightarrow> string \<Rightarrow> string \<Rightarrow> string" where
  "digest_rendered_spec scheme_name username realm nonce uri response =
     scheme_name @ '' username='' @ quoted username @ '', realm='' @ quoted realm @
     '', nonce='' @ quoted nonce @ '', uri='' @ quoted uri @ '', response='' @ quoted response"

definition basic_response_spec :: "string \<Rightarrow> string \<Rightarrow> string" where
  "basic_response_spec username password = Base64_Encode (ToData (username @ '':'' @ password))"

definition basic_rendered_spec :: "string \<Rightarrow> string \<Rightarrow> string" where
  "basic_rendered_spec scheme_name response = scheme_name @ '' '' @ response"

text \<open>The text of a buffer of bytes, to read a decoded credential as a string.\<close>

definition ToString :: "Data \<Rightarrow> string" where
  "ToString d = map (\<lambda>b. char_of (unat b)) d"

text \<open>
  The invariant of spec 3: the stored response and the stored rendered value are the
  ones derived from the fields as they stand now. While the scheme is \<open>Unknown\<close> no
  credential value is valid.
\<close>

definition response_consistent :: "RtspHeaderAuthorizationField \<Rightarrow> bool" where
  "response_consistent this =
     (case m_scheme this of
        Unknown \<Rightarrow> False
      | Basic \<Rightarrow>
          m_response this = basic_response_spec (m_username this) (m_password this) \<and>
          field_value this = basic_rendered_spec (GetSchemeString Basic) (m_response this)
      | Digest \<Rightarrow>
          m_response this =
            digest_response_spec (m_username this) (m_password this) (m_method this)
              (m_realm this) (m_uri this) (m_nonce this) \<and>
          field_value this =
            digest_rendered_spec (GetSchemeString Digest) (m_username this) (m_realm this)
              (m_nonce this) (m_uri this) (m_response this))"

text \<open>A caller's calls of the three mutators, one after the other on the same object.\<close>

datatype mutator_call =
    CallSetBasicAuth string string
  | CallSetDigestAuth string string string string string string
  | CallUpdateDigestAuth string string

fun call :: "mutator_call \<Rightarrow> RtspHeaderAuthorizationField \<Rightarrow> RtspHeaderAuthorizationField" where
  "call (CallSetBasicAuth username password) this = SetBasicAuth username password this"
| "call (CallSetDigestAuth username password method realm uri nonce) this =
     SetDigestAuth username password method realm uri nonce this"
| "call (CallUpdateDigestAuth method uri) this = UpdateDigestAuth method uri this"

fun calls :: "mutator_call list \<Rightarrow> RtspHeaderAuthorizationField \<Rightarrow> RtspHeaderAuthorizationField" where
  "calls [] this = this"
| "calls (c # cs) this = calls cs (call c this)"

text \<open>
  The reads and the update as spec 7 and 8 want them: a read of the response of a
  credential that is not ready gives a signal of its own, and \<open>UpdateDigest\<close> on a
  credential whose scheme is not \<open>Digest\<close> is rejected.
\<close>

datatype read_result = NotReady | ReadValue string

definition ReadResponse_spec :: "RtspHeaderAuthorizationField \<Rightarrow> read_result" where
  "ReadResponse_spec this =
     (if m_scheme this = Unknown then NotReady else ReadValue (m_response this))"

datatype caller_error = NotADigestCredential

definition UpdateDigest_spec ::
  "string \<Rightarrow> string \<Rightarrow> RtspHeaderAuthorizationField \<Rightarrow> caller_error + RtspHeaderAuthorizationField" where
  "UpdateDigest_spec method uri this =
     (if m_scheme this = Digest then Inr (UpdateDigestAuth method uri this)
      else Inl NotADigestCredential)"

section \<open>Formatting, hex digits and base64\<close>

lemma FormatString_colon3 [simp]:
  "FormatString ''%s:%s:%s'' [a, b, c] = a @ '':'' @ b @ '':'' @ c"
  by simp

lemma FormatString_colon2 [simp]: "FormatString ''%s:%s'' [a, b] = a @ '':'' @ b"
  by simp

lemma FormatString_space2 [simp]: "FormatString ''%s %s'' [a, b] = a @ '' '' @ b"
  by simp

lemma FormatString_digest [simp]:
  \<open>FormatString ''%s username="%s", realm="%s", nonce="%s", uri="%s", response="%s"''
     [s, u, r, n, t, p] = digest_rendered_spec s u r n t p\<close>
  by (simp add: digest_rendered_spec_def quoted_def)

lemma unat_byte: "unat (b :: 8 word) < 256"
  using unsigned_less [of b] by simp

lemma nibbles: "unat (b :: 8 word) div 16 < 16" "unat b mod 16 < 16"
  using unat_byte [of b] by simp_all

lemma tolower_hex_digit_upper: "n < 16 \<Longrightarrow> tolower (hex_digit_upper n) = hex_digit_lower n"
proof -
  assume "n < 16"
  then have "n \<in> set [0..<16]" by simp
  then show ?thesis
    apply (simp add: upt_rec tolower_def hex_digit_upper_def hex_digit_lower_def)
    apply (elim disjE; simp)
    done
qed

lemma LowerCaseString_ToHexString: "LowerCaseString (ToHexString d) = lowercase_hex d"
  by (induction d)
     (simp_all add: LowerCaseString_def ToHexString_def lowercase_hex_def
        tolower_hex_digit_upper nibbles)

lemma hex_digit_lower_is_digit: "n < 16 \<Longrightarrow> is_lowercase_hex_digit (hex_digit_lower n)"
proof -
  assume "n < 16"
  then have "n \<in> set [0..<16]" by simp
  then show ?thesis
    apply (simp add: upt_rec is_lowercase_hex_digit_def hex_digit_lower_def)
    apply (elim disjE; simp)
    done
qed

lemma lowercase_hex_digits: "list_all is_lowercase_hex_digit (lowercase_hex d)"
  by (induction d) (simp_all add: lowercase_hex_def hex_digit_lower_is_digit nibbles)

lemma unat_of_char_byte: "unat (of_char c :: 8 word) = of_char c"
proof -
  have "(of_char c :: 8 word) = of_nat (of_char c)"
    by (simp only: of_nat_of_char)
  then have "unat (of_char c :: 8 word) = of_char c mod 256"
    by (simp add: unat_of_nat)
  then show ?thesis by simp
qed

lemma ToString_ToData: "ToString (ToData s) = s"
  by (induction s) (simp_all add: ToString_def ToData_def unat_of_char_byte)

lemma base64_alphabet_length: "length base64_alphabet = 64"
  by (simp add: base64_alphabet_def)

lemma base64_alphabet_distinct: "distinct base64_alphabet"
  by (simp add: base64_alphabet_def)

lemma base64_value_char: "n < 64 \<Longrightarrow> base64_value (base64_char n) = Some n"
proof -
  assume n: "n < 64"
  have "map_of (zip base64_alphabet [0..<64]) (base64_alphabet ! n) = Some ([0..<64] ! n)"
    using n
    by (intro map_of_zip_nth) (simp_all add: base64_alphabet_length base64_alphabet_distinct)
  then show ?thesis using n by (simp add: base64_value_def base64_char_def)
qed

lemma base64_char_not_pad: "n < 64 \<Longrightarrow> base64_char n \<noteq> CHR ''=''"
proof -
  assume n: "n < 64"
  have "CHR ''='' \<notin> set base64_alphabet" by (simp add: base64_alphabet_def)
  moreover have "base64_char n \<in> set base64_alphabet"
    using n by (simp add: base64_char_def base64_alphabet_length)
  ultimately show ?thesis by metis
qed

text \<open>
  The six-bit groups of one, two and three bytes: each is below 64, and the decoder's
  sums give the bytes back.
\<close>

lemma sextets1:
  fixes a :: nat
  assumes "a < 256"
  shows "a div 4 < 64" "a mod 4 * 16 < 64" "a div 4 * 4 + a mod 4 * 16 div 16 = a"
  using assms by simp_all

lemma sextets2:
  fixes a b :: nat
  assumes "a < 256" "b < 256"
  shows "a mod 4 * 16 + b div 16 < 64" "b mod 16 * 4 < 64"
    "a div 4 * 4 + (a mod 4 * 16 + b div 16) div 16 = a"
    "(a mod 4 * 16 + b div 16) mod 16 * 16 + b mod 16 * 4 div 4 = b"
proof -
  show "a mod 4 * 16 + b div 16 < 64" using assms by linarith
  show "b mod 16 * 4 < 64" by simp
  show "a div 4 * 4 + (a mod 4 * 16 + b div 16) div 16 = a" using assms by simp
  show "(a mod 4 * 16 + b div 16) mod 16 * 16 + b mod 16 * 4 div 4 = b" using assms by simp
qed

lemma sextets3:
  fixes a b c :: nat
  assumes "b < 256" "c < 256"
  shows "b mod 16 * 4 + c div 64 < 64" "c mod 64 < 64"
    "(a mod 4 * 16 + b div 16) mod 16 * 16 + (b mod 16 * 4 + c div 64) div 4 = b"
    "(b mod 16 * 4 + c div 64) mod 4 * 64 + c mod 64 = c"
proof -
  show "b mod 16 * 4 + c div 64 < 64" using assms by linarith
  show "c mod 64 < 64" by simp
  show "(a mod 4 * 16 + b div 16) mod 16 * 16 + (b mod 16 * 4 + c div 64) div 4 = b"
    using assms by simp
  show "(b mod 16 * 4 + c div 64) mod 4 * 64 + c mod 64 = c" using assms by simp
qed

lemma Base64_Decode_Encode: "Base64_Decode (Base64_Encode d) = Some d"
proof (induction d rule: Base64_Encode.induct)
  case 1
  show ?case by simp
next
  case (2 a)
  define s0 s1 where "s0 = unat a div 4" and "s1 = unat a mod 4 * 16"
  have lt: "s0 < 64" "s1 < 64"
    unfolding s0_def s1_def using sextets1 [OF unat_byte [of a]] by simp_all
  have "s0 * 4 + s1 div 16 = unat a"
    unfolding s0_def s1_def using sextets1(3) [OF unat_byte [of a]] by simp
  then have bytes: "of_nat (s0 * 4 + s1 div 16) = a" by simp
  have "Base64_Encode [a] = [base64_char s0, base64_char s1, CHR ''='', CHR ''='']"
    by (simp add: s0_def s1_def)
  then show ?case using lt bytes by (simp add: base64_value_char)
next
  case (3 a b)
  define s0 s1 s2 where "s0 = unat a div 4" and "s1 = unat a mod 4 * 16 + unat b div 16"
    and "s2 = unat b mod 16 * 4"
  have lt: "s0 < 64" "s1 < 64" "s2 < 64"
    unfolding s0_def s1_def s2_def
    using sextets1 [OF unat_byte [of a]] sextets2 [OF unat_byte [of a] unat_byte [of b]]
    by simp_all
  have "s0 * 4 + s1 div 16 = unat a" "s1 mod 16 * 16 + s2 div 4 = unat b"
    unfolding s0_def s1_def s2_def
    using sextets2(3,4) [OF unat_byte [of a] unat_byte [of b]] by simp_all
  then have bytes: "of_nat (s0 * 4 + s1 div 16) = a" "of_nat (s1 mod 16 * 16 + s2 div 4) = b"
    by simp_all
  have "Base64_Encode [a, b] = [base64_char s0, base64_char s1, base64_char s2, CHR ''='']"
    by (simp add: s0_def s1_def s2_def)
  then show ?case using lt bytes by (simp add: base64_value_char base64_char_not_pad)
next
  case (4 a b c rest)
  define s0 s1 s2 s3 where "s0 = unat a div 4" and "s1 = unat a mod 4 * 16 + unat b div 16"
    and "s2 = unat b mod 16 * 4 + unat c div 64" and "s3 = unat c mod 64"
  have lt: "s0 < 64" "s1 < 64" "s2 < 64" "s3 < 64"
    unfolding s0_def s1_def s2_def s3_def
    using sextets1 [OF unat_byte [of a]] sextets2 [OF unat_byte [of a] unat_byte [of b]]
      sextets3 [OF unat_byte [of b] unat_byte [of c]]
    by simp_all
  have "s0 * 4 + s1 div 16 = unat a" "s1 mod 16 * 16 + s2 div 4 = unat b"
    "s2 mod 4 * 64 + s3 = unat c"
    unfolding s0_def s1_def s2_def s3_def
    using sextets2(3) [OF unat_byte [of a] unat_byte [of b]]
      sextets3(3) [OF unat_byte [of b] unat_byte [of c], of "unat a"]
      sextets3(4) [OF unat_byte [of b] unat_byte [of c]]
    by simp_all
  then have bytes: "of_nat (s0 * 4 + s1 div 16) = a" "of_nat (s1 mod 16 * 16 + s2 div 4) = b"
    "of_nat (s2 mod 4 * 64 + s3) = c"
    by simp_all
  have "Base64_Encode (a # b # c # rest) =
      base64_char s0 # base64_char s1 # base64_char s2 # base64_char s3 # Base64_Encode rest"
    by (simp add: s0_def s1_def s2_def s3_def)
  then show ?case using lt bytes "4.IH" by (simp add: base64_value_char base64_char_not_pad)
qed

section \<open>The model on known values\<close>

text \<open>
  Two test vectors of RFC 1321 (the empty message and \<open>abc\<close>), the test vectors of
  RFC 4648 for base64, and the two scenarios of spec 8: \<open>bob\<close> with \<open>pass\<close> under Basic, and \<open>alice\<close> with \<open>wonderland\<close>,
  realm \<open>streaming\<close>, nonce \<open>abc123\<close>, \<open>DESCRIBE\<close> of \<open>rtsp://host/live/stream1\<close>
  under Digest.
\<close>

lemma md5_test_vectors:
  "lowercase_hex (ComputeDigest Md5 (ToData [])) = ''d41d8cd98f00b204e9800998ecf8427e''"
  "lowercase_hex (ComputeDigest Md5 (ToData ''abc'')) = ''900150983cd24fb0d6963f7d28e17f72''"
  by code_simp+

lemma base64_test_vectors:
  "Base64_Encode (ToData []) = []"
  "Base64_Encode (ToData ''f'') = ''Zg==''"
  "Base64_Encode (ToData ''fo'') = ''Zm8=''"
  "Base64_Encode (ToData ''foo'') = ''Zm9v''"
  "Base64_Encode (ToData ''foob'') = ''Zm9vYg==''"
  "Base64_Encode (ToData ''fooba'') = ''Zm9vYmE=''"
  "Base64_Encode (ToData ''foobar'') = ''Zm9vYmFy''"
  by code_simp+

lemma scenario_basic:
  "field_value (CreateRtspBasicAuthorizationField ''bob'' ''pass'') = ''Basic Ym9iOnBhc3M=''"
  by code_simp

lemma scenario_digest:
  "GetResponse (CreateRtspDigestAuthorizationField ''alice'' ''wonderland'' ''DESCRIBE''
      ''rtsp://host/live/stream1'' ''streaming'' ''abc123'') =
   ''aafe2383dc62999eb3f4318c4498574d''"
  by code_simp

section \<open>The setters, field by field\<close>

text \<open>
  From here on the formats are used through the four lemmas above, and the scheme
  tokens and the digest stay as they are written.
\<close>

declare FormatString.simps [simp del]
declare GetSchemeString.simps [simp del]
declare ComputeDigest.simps [simp del]

lemma SetBasicAuth_fields:
  "SetBasicAuth username password this =
     this\<lparr>field_type := Authorization,
          field_value := basic_rendered_spec (GetSchemeString Basic) (basic_response_spec username password),
          m_scheme := Basic, m_username := username, m_password := password,
          m_response := basic_response_spec username password\<rparr>"
  by (simp add: SetBasicAuth_def SetContent_def Let_def basic_response_spec_def basic_rendered_spec_def)

lemma SetDigestAuth_fields:
  "SetDigestAuth username password method realm uri nonce this =
     this\<lparr>field_type := Authorization,
          field_value :=
            digest_rendered_spec (GetSchemeString Digest) username realm nonce uri
              (digest_response_spec username password method realm uri nonce),
          m_scheme := Digest, m_username := username, m_password := password,
          m_method := method, m_realm := realm, m_nonce := nonce, m_uri := uri,
          m_response := digest_response_spec username password method realm uri nonce\<rparr>"
  by (simp add: SetDigestAuth_def SetContent_def Let_def LowerCaseString_ToHexString
      digest_response_spec_def HA1_spec_def HA2_spec_def)

lemma UpdateDigestAuth_fields:
  "UpdateDigestAuth method uri this =
     this\<lparr>field_type := Authorization,
          field_value :=
            digest_rendered_spec (GetSchemeString Digest) (m_username this) (m_realm this)
              (m_nonce this) uri
              (digest_response_spec (m_username this) (m_password this) method (m_realm this) uri
                 (m_nonce this)),
          m_scheme := Digest, m_method := method, m_uri := uri,
          m_response :=
            digest_response_spec (m_username this) (m_password this) method (m_realm this) uri
              (m_nonce this)\<rparr>"
  by (simp add: UpdateDigestAuth_def SetDigestAuth_fields)

lemmas getters =
  GetScheme_def GetUsername_def GetPassword_def GetMethod_def GetRealm_def GetUri_def
  GetNonce_def GetResponse_def

lemma response_consistent_SetBasicAuth:
  "response_consistent (SetBasicAuth username password this)"
  by (simp add: SetBasicAuth_fields response_consistent_def)

lemma response_consistent_SetDigestAuth:
  "response_consistent (SetDigestAuth username password method realm uri nonce this)"
  by (simp add: SetDigestAuth_fields response_consistent_def)

lemma response_consistent_UpdateDigestAuth:
  "response_consistent (UpdateDigestAuth method uri this)"
  by (simp add: UpdateDigestAuth_def response_consistent_SetDigestAuth)

lemma response_consistent_call: "response_consistent (call c this)"
  by (cases c)
     (simp_all add: response_consistent_SetBasicAuth response_consistent_SetDigestAuth
        response_consistent_UpdateDigestAuth)

lemma calls_append: "calls (cs @ ds) this = calls ds (calls cs this)"
  by (induction cs arbitrary: this) simp_all

section \<open>The claims\<close>

text \<open>
  C1. For every username, password, method, realm, uri and nonce, the response that
  \<open>SetDigestAuth\<close> stores (and so the one the Digest factory returns) is the three-step
  derivation of the spec: HA1 is the lowercase hex of the digest of
  \<open>username:realm:password\<close>, HA2 the lowercase hex of the digest of \<open>method:uri\<close>, and
  the response the lowercase hex of the digest of \<open>HA1:nonce:HA2\<close>, the parts joined by
  single colons and nothing else. HA1, HA2 and the response consist of the digits
  \<open>0123456789abcdef\<close> only: the source's upper-case hex, lowered, is the spec's lowercase
  hex.
\<close>

theorem SetDigestAuth_response_derivation:
  "GetResponse (SetDigestAuth username password method realm uri nonce this) =
     digest_response_spec username password method realm uri nonce \<and>
   GetResponse (CreateRtspDigestAuthorizationField username password method uri realm nonce) =
     digest_response_spec username password method realm uri nonce \<and>
   digest_response_spec username password method realm uri nonce =
     lowercase_hex (ComputeDigest Md5 (ToData
       (lowercase_hex (ComputeDigest Md5 (ToData (username @ '':'' @ realm @ '':'' @ password)))
        @ '':'' @ nonce @ '':'' @
        lowercase_hex (ComputeDigest Md5 (ToData (method @ '':'' @ uri)))))) \<and>
   list_all is_lowercase_hex_digit (HA1_spec username realm password) \<and>
   list_all is_lowercase_hex_digit (HA2_spec method uri) \<and>
   list_all is_lowercase_hex_digit
     (GetResponse (SetDigestAuth username password method realm uri nonce this))"
proof -
  have stored: "GetResponse (SetDigestAuth username password method realm uri nonce c) =
      digest_response_spec username password method realm uri nonce" for c
    by (simp add: SetDigestAuth_fields GetResponse_def)
  have steps: "digest_response_spec username password method realm uri nonce =
      lowercase_hex (ComputeDigest Md5 (ToData
        (lowercase_hex (ComputeDigest Md5 (ToData (username @ '':'' @ realm @ '':'' @ password)))
         @ '':'' @ nonce @ '':'' @
         lowercase_hex (ComputeDigest Md5 (ToData (method @ '':'' @ uri))))))"
    by (simp add: digest_response_spec_def HA1_spec_def HA2_spec_def)
  have digits: "list_all is_lowercase_hex_digit (HA1_spec username realm password)"
    "list_all is_lowercase_hex_digit (HA2_spec method uri)"
    "list_all is_lowercase_hex_digit
       (digest_response_spec username password method realm uri nonce)"
    by (simp_all add: HA1_spec_def HA2_spec_def digest_response_spec_def lowercase_hex_digits)
  show ?thesis
    unfolding CreateRtspDigestAuthorizationField_def stored
    using steps digits by simp
qed

text \<open>
  C2. For every username, password, method, realm, uri and nonce, the value that
  \<open>SetDigestAuth\<close> renders and stores is the Digest scheme token followed by the five
  parameters username, realm, nonce, uri, response in this order, each value between
  double quotes, the pairs separated by a comma and a space; the response rendered is
  the stored one.
\<close>

theorem SetDigestAuth_rendered_value:
  "field_value (SetDigestAuth username password method realm uri nonce this) =
     GetSchemeString Digest @ '' username='' @ quoted username @
     '', realm='' @ quoted realm @ '', nonce='' @ quoted nonce @ '', uri='' @ quoted uri @
     '', response='' @
     quoted (GetResponse (SetDigestAuth username password method realm uri nonce this)) \<and>
   quoted username = [CHR 0x22] @ username @ [CHR 0x22]"
  by (simp add: SetDigestAuth_fields GetResponse_def digest_rendered_spec_def quoted_def)

text \<open>
  C3. For every username and password, the empty ones included, \<open>SetBasicAuth\<close> stores
  as response the base64 text of the bytes of \<open>username:password\<close>; decoding the stored
  response gives exactly these bytes, that is the text \<open>username:password\<close>, back; and
  the rendered value is the Basic scheme token, one space, and the response. The Basic
  factory returns the same response.
\<close>

theorem SetBasicAuth_response_roundtrip:
  "GetResponse (SetBasicAuth username password this) =
     Base64_Encode (ToData (username @ '':'' @ password)) \<and>
   Base64_Decode (GetResponse (SetBasicAuth username password this)) =
     Some (ToData (username @ '':'' @ password)) \<and>
   map_option ToString (Base64_Decode (GetResponse (SetBasicAuth username password this))) =
     Some (username @ '':'' @ password) \<and>
   field_value (SetBasicAuth username password this) =
     GetSchemeString Basic @ '' '' @ GetResponse (SetBasicAuth username password this) \<and>
   GetResponse (CreateRtspBasicAuthorizationField username password) =
     Base64_Encode (ToData (username @ '':'' @ password))"
proof -
  have stored: "GetResponse (SetBasicAuth username password c) =
      Base64_Encode (ToData (username @ '':'' @ password))" for c
    by (simp add: SetBasicAuth_fields GetResponse_def basic_response_spec_def)
  have decoded: "Base64_Decode (Base64_Encode (ToData (username @ '':'' @ password))) =
      Some (ToData (username @ '':'' @ password))"
    by (rule Base64_Decode_Encode)
  have rendered: "field_value (SetBasicAuth username password this) =
      GetSchemeString Basic @ '' '' @ Base64_Encode (ToData (username @ '':'' @ password))"
    by (simp add: SetBasicAuth_fields basic_response_spec_def basic_rendered_spec_def)
  show ?thesis
    unfolding CreateRtspBasicAuthorizationField_def stored decoded
    using rendered by (simp add: ToString_ToData)
qed

text \<open>
  C4. After every call of \<open>SetBasicAuth\<close>, \<open>SetDigestAuth\<close> or \<open>UpdateDigestAuth\<close>,
  whatever the object was before and whatever calls came earlier, the stored response and
  the stored rendered value are the ones derived from the fields as they stand when the
  call returns: for scheme Basic from username and password, for scheme Digest from
  username, password, method, realm, uri and nonce.
\<close>

theorem response_consistent_after_every_call:
  "response_consistent (calls (cs @ [c]) this)"
proof -
  have "calls (cs @ [c]) this = call c (calls cs this)"
    by (simp add: calls_append)
  then show ?thesis
    by (simp add: response_consistent_call)
qed

text \<open>
  C5. For every credential and every new method and uri, \<open>UpdateDigestAuth\<close> stores the
  new method and uri, leaves username, password, realm and nonce as they were, and derives
  the response and the rendered value again from these four stored fields and the new
  method and uri. The scheme after the call is Digest, which for a Digest credential is
  the scheme it had, so method and uri are the only inputs that change.
\<close>

theorem UpdateDigestAuth_frame:
  "GetUsername (UpdateDigestAuth method uri this) = GetUsername this \<and>
   GetPassword (UpdateDigestAuth method uri this) = GetPassword this \<and>
   GetRealm (UpdateDigestAuth method uri this) = GetRealm this \<and>
   GetNonce (UpdateDigestAuth method uri this) = GetNonce this \<and>
   GetMethod (UpdateDigestAuth method uri this) = method \<and>
   GetUri (UpdateDigestAuth method uri this) = uri \<and>
   GetScheme (UpdateDigestAuth method uri this) = Digest \<and>
   field_type (UpdateDigestAuth method uri this) = Authorization \<and>
   GetResponse (UpdateDigestAuth method uri this) =
     digest_response_spec (GetUsername this) (GetPassword this) method (GetRealm this) uri
       (GetNonce this) \<and>
   field_value (UpdateDigestAuth method uri this) =
     digest_rendered_spec (GetSchemeString Digest) (GetUsername this) (GetRealm this)
       (GetNonce this) uri (GetResponse (UpdateDigestAuth method uri this))"
  by (simp add: UpdateDigestAuth_fields getters)

text \<open>
  C6. For every credential, method and uri, a second call of \<open>UpdateDigestAuth\<close> with the
  same method and uri leaves the whole object as the first call left it; in particular
  the response is the same after both calls.
\<close>

theorem UpdateDigestAuth_idempotent:
  "UpdateDigestAuth method uri (UpdateDigestAuth method uri this) =
     UpdateDigestAuth method uri this \<and>
   GetResponse (UpdateDigestAuth method uri (UpdateDigestAuth method uri this)) =
     GetResponse (UpdateDigestAuth method uri this)"
  by (simp add: UpdateDigestAuth_fields)

text \<open>
  C7, as the spec states it, fails: on a freshly constructed credential the read of the
  response that the spec asks for gives the not-ready signal, while \<open>GetResponse\<close>
  returns the empty string as an ordinary value.
\<close>

theorem GetResponse_not_ready_counterexample:
  "ReadResponse_spec New_RtspHeaderAuthorizationField = NotReady \<and>
   ReadValue (GetResponse New_RtspHeaderAuthorizationField) \<noteq>
     ReadResponse_spec New_RtspHeaderAuthorizationField \<and>
   GetResponse New_RtspHeaderAuthorizationField = []"
  by (simp add: ReadResponse_spec_def New_RtspHeaderAuthorizationField_def GetResponse_def)

text \<open>
  C7, amended. On a freshly constructed credential the scheme reads as \<open>Unknown\<close>, and
  \<open>GetResponse\<close>, like every other string accessor, returns the empty string; the
  accessors return plain values and have no not-ready signal.
\<close>

theorem New_credential_reads:
  "GetScheme New_RtspHeaderAuthorizationField = Unknown \<and>
   GetResponse New_RtspHeaderAuthorizationField = [] \<and>
   GetUsername New_RtspHeaderAuthorizationField = [] \<and>
   GetPassword New_RtspHeaderAuthorizationField = [] \<and>
   GetMethod New_RtspHeaderAuthorizationField = [] \<and>
   GetRealm New_RtspHeaderAuthorizationField = [] \<and>
   GetUri New_RtspHeaderAuthorizationField = [] \<and>
   GetNonce New_RtspHeaderAuthorizationField = []"
  by (simp add: New_RtspHeaderAuthorizationField_def getters)

text \<open>
  C8, as the spec states it, fails: on a freshly constructed credential, and on a Basic
  one, the update that the spec asks for is rejected, while \<open>UpdateDigestAuth\<close> goes
  through, leaves the scheme at Digest, and renders a value from the empty realm and
  nonce.
\<close>

theorem UpdateDigestAuth_rejection_counterexample:
  "UpdateDigest_spec ''PLAY'' ''rtsp://host/live'' New_RtspHeaderAuthorizationField =
     Inl NotADigestCredential \<and>
   GetScheme (UpdateDigestAuth ''PLAY'' ''rtsp://host/live'' New_RtspHeaderAuthorizationField) =
     Digest \<and>
   field_value (UpdateDigestAuth ''PLAY'' ''rtsp://host/live'' New_RtspHeaderAuthorizationField) =
     digest_rendered_spec (GetSchemeString Digest) [] [] [] ''rtsp://host/live''
       (digest_response_spec [] [] ''PLAY'' [] ''rtsp://host/live'' []) \<and>
   UpdateDigest_spec ''PLAY'' ''rtsp://host/live''
       (SetBasicAuth ''bob'' ''pass'' New_RtspHeaderAuthorizationField) =
     Inl NotADigestCredential \<and>
   GetScheme (UpdateDigestAuth ''PLAY'' ''rtsp://host/live''
       (SetBasicAuth ''bob'' ''pass'' New_RtspHeaderAuthorizationField)) = Digest \<and>
   field_value (UpdateDigestAuth ''PLAY'' ''rtsp://host/live''
       (SetBasicAuth ''bob'' ''pass'' New_RtspHeaderAuthorizationField)) =
     digest_rendered_spec (GetSchemeString Digest) ''bob'' [] [] ''rtsp://host/live''
       (digest_response_spec ''bob'' ''pass'' ''PLAY'' [] ''rtsp://host/live'' [])"
  by (simp add: UpdateDigest_spec_def UpdateDigestAuth_fields SetBasicAuth_fields
      New_RtspHeaderAuthorizationField_def GetScheme_def)

text \<open>
  C8, amended. \<open>UpdateDigestAuth\<close> does not look at the state of the credential. On
  every credential, whatever its scheme, it sets the scheme to Digest and derives response
  and rendered value from the stored fields. On a freshly constructed credential it does
  what \<open>SetDigestAuth\<close> does with an empty username, password, realm and nonce; on a
  credential last set by \<open>SetBasicAuth\<close> it does what \<open>SetDigestAuth\<close> does with that
  username and password and the realm and nonce left from before.
\<close>

theorem UpdateDigestAuth_unchecked:
  "GetScheme (UpdateDigestAuth method uri this) = Digest \<and>
   response_consistent (UpdateDigestAuth method uri this) \<and>
   UpdateDigestAuth method uri New_RtspHeaderAuthorizationField =
     SetDigestAuth [] [] method [] uri [] New_RtspHeaderAuthorizationField \<and>
   UpdateDigestAuth method uri (SetBasicAuth username password this) =
     SetDigestAuth username password method (GetRealm this) uri (GetNonce this) this"
proof (intro conjI)
  show "GetScheme (UpdateDigestAuth method uri this) = Digest"
    by (simp add: UpdateDigestAuth_fields GetScheme_def)
  show "response_consistent (UpdateDigestAuth method uri this)"
    by (rule response_consistent_UpdateDigestAuth)
  show "UpdateDigestAuth method uri New_RtspHeaderAuthorizationField =
      SetDigestAuth [] [] method [] uri [] New_RtspHeaderAuthorizationField"
    by (simp add: UpdateDigestAuth_def New_RtspHeaderAuthorizationField_def)
  show "UpdateDigestAuth method uri (SetBasicAuth username password this) =
      SetDigestAuth username password method (GetRealm this) uri (GetNonce this) this"
    by (simp add: UpdateDigestAuth_fields SetDigestAuth_fields SetBasicAuth_fields getters)
qed

text \<open>
  C9. For every message and every credential, \<open>Parse\<close> returns \<open>false\<close> and leaves the
  credential as it was: no field is set from the message.
\<close>

theorem Parse_always_fails:
  "Parse message this = (False, this)"
  by (simp add: Parse_def)

text \<open>
  C10. \<open>SetBasicAuth\<close> leaves method, realm, uri and nonce as they were. After
  \<open>SetDigestAuth\<close> and then \<open>SetBasicAuth\<close> on the same object, the scheme reads Basic
  and \<open>GetMethod\<close>, \<open>GetRealm\<close>, \<open>GetUri\<close> and \<open>GetNonce\<close> still return what the
  Digest call stored.
\<close>

theorem SetBasicAuth_keeps_digest_fields:
  "GetMethod (SetBasicAuth username password this) = GetMethod this \<and>
   GetRealm (SetBasicAuth username password this) = GetRealm this \<and>
   GetUri (SetBasicAuth username password this) = GetUri this \<and>
   GetNonce (SetBasicAuth username password this) = GetNonce this \<and>
   GetScheme (SetBasicAuth username password
     (SetDigestAuth username' password' method realm uri nonce this)) = Basic \<and>
   GetMethod (SetBasicAuth username password
     (SetDigestAuth username' password' method realm uri nonce this)) = method \<and>
   GetRealm (SetBasicAuth username password
     (SetDigestAuth username' password' method realm uri nonce this)) = realm \<and>
   GetUri (SetBasicAuth username password
     (SetDigestAuth username' password' method realm uri nonce this)) = uri \<and>
   GetNonce (SetBasicAuth username password
     (SetDigestAuth username' password' method realm uri nonce this)) = nonce"
  by (simp add: SetBasicAuth_fields SetDigestAuth_fields getters)

end
